theory Spec2Isabelle
  imports Complex_Main "HOL-Library.Sublist"
begin

section \<open>Machine integers and runes\<close>

text \<open>
  Go's \<open>int\<close> is a 64-bit two's complement integer on the supported platforms and
  \<open>rune\<close> is \<open>int32\<close>. Both are modelled as \<open>int\<close>; every arithmetic result is
  passed through the wrap-around of its width.
\<close>

definition wrap64 :: "int \<Rightarrow> int" where
  "wrap64 i = (i + 2 ^ 63) mod 2 ^ 64 - 2 ^ 63"

definition wrap32 :: "int \<Rightarrow> int" where
  "wrap32 i = (i + 2 ^ 31) mod 2 ^ 32 - 2 ^ 31"

abbreviation rune :: "char \<Rightarrow> int" where
  "rune c \<equiv> of_char c"

section \<open>Formatting\<close>

text \<open>
  The verbs of \<open>fmt.Sprintf\<close> that the modelled functions use. A Go string is a
  sequence of bytes, as \<open>string\<close> is here.
\<close>

definition digit :: "nat \<Rightarrow> char" where
  "digit n = char_of (of_char CHR ''0'' + n)"

function decimal :: "nat \<Rightarrow> string" where
  "decimal n = (if n < 10 then [digit n] else decimal (n div 10) @ [digit (n mod 10)])"
  by pat_completeness auto
termination
  by (relation "measure id") auto

declare decimal.simps [simp del]

text \<open>\<open>%d\<close> of an integer.\<close>

definition fmt_d :: "int \<Rightarrow> string" where
  "fmt_d i = (if i < 0 then CHR ''-'' # decimal (nat (- i)) else decimal (nat i))"

text \<open>
  \<open>%.f\<close> and \<open>%.0f\<close> of a floating-point number: the nearest integer, a tie going to
  the even one, with the sign of the number (so that \<open>-0.3\<close> gives \<open>-0\<close>).
\<close>

definition round_half_even :: "real \<Rightarrow> int" where
  "round_half_even x =
     (if frac x < 1 / 2 then \<lfloor>x\<rfloor>
      else if frac x > 1 / 2 then \<lfloor>x\<rfloor> + 1
      else if even \<lfloor>x\<rfloor> then \<lfloor>x\<rfloor> else \<lfloor>x\<rfloor> + 1)"

definition fmt_f0 :: "real \<Rightarrow> string" where
  "fmt_f0 x =
     (if x < 0 then CHR ''-'' # decimal (nat (round_half_even (- x)))
      else decimal (nat (round_half_even x)))"

text \<open>\<open>%02.0f\<close>: the same, filled with zeros to two characters after the sign.\<close>

definition fmt_02f0 :: "real \<Rightarrow> string" where
  "fmt_02f0 x =
     (if x < 0 then fmt_f0 x
      else if length (fmt_f0 x) < 2 then CHR ''0'' # fmt_f0 x
      else fmt_f0 x)"

text \<open>
  \<open>%c\<close> of a rune: its UTF-8 encoding, and that of U+FFFD for a value that is no
  Unicode scalar value.
\<close>

definition fmt_c :: "int \<Rightarrow> string" where
  "fmt_c r =
     (if r < 0 \<or> r > 1114111 \<or> (55296 \<le> r \<and> r \<le> 57343)
      then [char_of (239 :: int), char_of (191 :: int), char_of (189 :: int)]
      else if r < 128 then [char_of r]
      else if r < 2048 then [char_of (192 + r div 64), char_of (128 + r mod 64)]
      else if r < 65536
      then [char_of (224 + r div 4096), char_of (128 + r div 64 mod 64), char_of (128 + r mod 64)]
      else [char_of (240 + r div 262144), char_of (128 + r div 4096 mod 64),
            char_of (128 + r div 64 mod 64), char_of (128 + r mod 64)])"

section \<open>Coordinates\<close>

record OriginCoordinate =
  X :: int
  Y :: int

record A1Coordinate =
  Col :: int
  Row :: int

text \<open>One constructor for each \<open>fmt.Errorf\<close> site of the two conversions.\<close>

datatype coord_error = OutOfBounds | InvalidColumn

definition IsPass :: "OriginCoordinate \<Rightarrow> bool" where
  "IsPass c = (X c = - 1 \<or> Y c = - 1)"

definition ToA1Coordinate :: "OriginCoordinate \<Rightarrow> int \<Rightarrow> coord_error + A1Coordinate" where
  "ToA1Coordinate c boardSize =
     (if X c < 0 \<or> X c \<ge> boardSize \<or> Y c < 0 \<or> Y c \<ge> boardSize then Inl OutOfBounds
      else
        let col0 = wrap32 (rune CHR ''A'' + wrap32 (X c));
            col = (if X c \<ge> 8 then wrap32 (col0 + 1) else col0);
            row = wrap64 (boardSize - Y c)
        in Inr \<lparr>Col = col, Row = row\<rparr>)"

definition ToOriginCoordinate :: "A1Coordinate \<Rightarrow> int \<Rightarrow> coord_error + OriginCoordinate" where
  "ToOriginCoordinate c boardSize =
     (let col = (if Col c \<ge> rune CHR ''a'' \<and> Col c \<le> rune CHR ''z''
                 then wrap32 (Col c - (rune CHR ''a'' - rune CHR ''A'')) else Col c);
          bounds = (\<lambda>x.
            let y = wrap64 (boardSize - Row c)
            in if x < 0 \<or> x \<ge> boardSize \<or> y < 0 \<or> y \<ge> boardSize then Inl OutOfBounds
               else Inr \<lparr>X = x, Y = y\<rparr>)
      in if col \<ge> rune CHR ''A'' \<and> col \<le> rune CHR ''H''
         then bounds (wrap32 (col - rune CHR ''A''))
         else if col \<ge> rune CHR ''J'' \<and> col \<le> rune CHR ''T''
         then bounds (wrap32 (wrap32 (col - rune CHR ''A'') - 1))
         else Inl InvalidColumn)"

section \<open>Time and floating point\<close>

text \<open>
  A \<open>time.Time\<close> is modelled as its number of nanoseconds since the Unix epoch and a
  \<open>time.Duration\<close> as the \<open>int64\<close> nanosecond count it is. \<open>Time.Sub\<close> saturates at
  the ends of the \<open>int64\<close> range. The wall clock that \<open>time.Since\<close> reads is the
  parameter \<open>now\<close> of every function that calls it.

  A \<open>float64\<close> or \<open>float32\<close> is modelled as the real number it denotes: the inputs
  are finite (the JSON decoder accepts no other number), and arithmetic is exact, with
  neither rounding nor overflow. The division by a period length of zero, whose result
  is no finite number, is a branch of its own in \<open>clock_Byoyomi\<close>.
\<close>

type_synonym Timestamp = int
type_synonym Duration = int

definition time_Sub :: "Timestamp \<Rightarrow> Timestamp \<Rightarrow> Duration" where
  "time_Sub t u =
     (if t - u < - (2 ^ 63) then - (2 ^ 63)
      else if t - u > 2 ^ 63 - 1 then 2 ^ 63 - 1
      else t - u)"

definition time_Since :: "Timestamp \<Rightarrow> Timestamp \<Rightarrow> Duration" where
  "time_Since now t = time_Sub now t"

text \<open>Go's integer division truncates towards zero.\<close>

definition go_quo :: "int \<Rightarrow> int \<Rightarrow> int" where
  "go_quo a b = (if (a < 0) = (b < 0) then \<bar>a\<bar> div \<bar>b\<bar> else - (\<bar>a\<bar> div \<bar>b\<bar>))"

definition go_rem :: "int \<Rightarrow> int \<Rightarrow> int" where
  "go_rem a b = a - b * go_quo a b"

definition Seconds :: "Duration \<Rightarrow> real" where
  "Seconds d = real_of_int (go_quo d 1000000000) + real_of_int (go_rem d 1000000000) / 1000000000"

abbreviation (input) eps :: real where
  "eps \<equiv> 1 / 10000000"

text \<open>
  The conversion \<open>int(f)\<close> of a \<open>float64\<close> truncates towards zero. Where the value does
  not fit \<open>int\<close>, Go leaves the result to the implementation: it is taken from the
  parameter \<open>oor\<close>, which receives the value (\<open>None\<close> for an infinity).
\<close>

definition float64_to_int :: "(real option \<Rightarrow> int) \<Rightarrow> real \<Rightarrow> int" where
  "float64_to_int oor f =
     (let z = (if f \<ge> 0 then \<lfloor>f\<rfloor> else \<lceil>f\<rceil>)
      in if - (2 ^ 63) \<le> z \<and> z < 2 ^ 63 then z else wrap64 (oor (Some f)))"

section \<open>Clock\<close>

abbreviation (input) PlayerBlack :: int where "PlayerBlack \<equiv> 1"
abbreviation (input) PlayerWhite :: int where "PlayerWhite \<equiv> 2"

abbreviation ClockAbsolute :: string where "ClockAbsolute \<equiv> ''absolute''"
abbreviation ClockByoyomi :: string where "ClockByoyomi \<equiv> ''byoyomi''"
abbreviation ClockCanadian :: string where "ClockCanadian \<equiv> ''canadian''"
abbreviation ClockFischer :: string where "ClockFischer \<equiv> ''fischer''"
abbreviation ClockSimple :: string where "ClockSimple \<equiv> ''simple''"

text \<open>
  The fields of each struct carry a prefix, the name the source gives its receiver:
  \<open>t\<close> for \<open>PlayerTime\<close>, \<open>c\<close> for \<open>Clock\<close>, \<open>tc\<close> for \<open>TimeControl\<close>, \<open>cc\<close> for
  \<open>ComputedClock\<close>.
\<close>

record PlayerTime =
  t_PeriodTime :: real
  t_PeriodTimeLeft :: real
  t_Periods :: int
  t_ThinkingTime :: real
  t_MovesLeft :: int
  t_BlockTime :: real
  t_Value :: Timestamp

record Clock =
  c_BlackPlayerID :: int
  c_BlackTime :: PlayerTime
  c_CurrentPlayerID :: int
  c_Expiration :: Timestamp
  c_GameID :: int
  c_LastMove :: Timestamp
  c_PausedSince :: Timestamp
  c_Title :: string
  c_WhitePlayerID :: int
  c_WhiteTime :: PlayerTime
  c_StartMode :: bool
  c_Now :: Timestamp

record TimeControl =
  tc_System :: string
  tc_Speed :: string
  tc_PauseOnWeekends :: bool
  tc_TotalTime :: real
  tc_MainTime :: real
  tc_PeriodTime :: real
  tc_Periods :: int
  tc_PeriodsMax :: int
  tc_PeriodsMin :: int
  tc_StonesPerPeriod :: int
  tc_InitialTime :: real
  tc_TimeIncrement :: real
  tc_MaxTime :: real
  tc_PerMove :: real

record ComputedClock =
  cc_System :: string
  cc_MainTime :: real
  cc_PeriodsLeft :: int
  cc_PeriodTimeLeft :: real
  cc_MovesLeft :: int
  cc_BlockTimeLeft :: real
  cc_SuddenDeath :: bool
  cc_TimedOut :: bool

text \<open>
  The first \<open>switch\<close> of \<open>ComputeClock\<close>: the snapshot of the queried player and whether
  that player holds the turn; \<open>None\<close> is the \<open>default\<close> branch.
\<close>

definition select_player :: "Clock \<Rightarrow> int \<Rightarrow> (PlayerTime \<times> bool) option" where
  "select_player c player =
     (if player = PlayerBlack then Some (c_BlackTime c, c_CurrentPlayerID c = c_BlackPlayerID c)
      else if player = PlayerWhite then Some (c_WhiteTime c, c_CurrentPlayerID c = c_WhitePlayerID c)
      else None)"

text \<open>The clock is paused when the player is not on turn or the game has not started.\<close>

definition elapsed_seconds :: "Timestamp \<Rightarrow> Clock \<Rightarrow> bool \<Rightarrow> real" where
  "elapsed_seconds now c isTurn =
     (if isTurn \<and> \<not> c_StartMode c then Seconds (time_Since now (c_LastMove c)) else 0)"

definition clock_AbsoluteFischer :: "TimeControl \<Rightarrow> PlayerTime \<Rightarrow> bool \<Rightarrow> real \<Rightarrow> ComputedClock" where
  "clock_AbsoluteFischer tc t isTurn elapsed =
     (let mainTime = (if isTurn then max 0 (t_ThinkingTime t - elapsed) else t_ThinkingTime t)
      in \<lparr>cc_System = tc_System tc, cc_MainTime = mainTime, cc_PeriodsLeft = 0,
          cc_PeriodTimeLeft = 0, cc_MovesLeft = 0, cc_BlockTimeLeft = 0,
          cc_SuddenDeath = (mainTime < 10), cc_TimedOut = (mainTime < eps)\<rparr>)"

text \<open>
  The main time and the overtime of a player on turn, as the byoyomi and the canadian
  branch both compute them.
\<close>

definition main_and_over :: "PlayerTime \<Rightarrow> real \<Rightarrow> real \<times> real" where
  "main_and_over t elapsed =
     (if t_ThinkingTime t > eps then
        (let mainTime = t_ThinkingTime t - elapsed
         in if mainTime < eps then (0, - mainTime) else (mainTime, 0))
      else (0, elapsed))"

text \<open>
  With a period length of zero the quotient \<open>overTime / tc.PeriodTime\<close> is an infinity
  (\<open>overTime\<close> is positive there), \<open>math.Floor\<close> keeps it, its conversion to \<open>int\<close> is
  left to the implementation, its product with zero is NaN, and the comparison of NaN
  with \<open>1e-7\<close> is false, so that \<open>periodTimeLeft\<close> becomes 0.
\<close>

definition clock_Byoyomi ::
  "(real option \<Rightarrow> int) \<Rightarrow> TimeControl \<Rightarrow> PlayerTime \<Rightarrow> bool \<Rightarrow> real \<Rightarrow> ComputedClock" where
  "clock_Byoyomi oor tc t isTurn elapsed =
     (let (mainTime, periodsLeft, periodTimeLeft) =
        (if isTurn then
           (let (mainTime, overTime) = main_and_over t elapsed
            in if overTime > eps then
                 (if tc_PeriodTime tc = 0 then
                    (let periodsLeft = wrap64 (t_Periods t - wrap64 (oor None))
                     in (mainTime, (if periodsLeft > 0 then periodsLeft else 0), 0))
                  else
                    (let periodsUsed = real_of_int \<lfloor>overTime / tc_PeriodTime tc\<rfloor>;
                         periodsLeft = wrap64 (t_Periods t - float64_to_int oor periodsUsed);
                         periodTimeLeft = tc_PeriodTime tc - (overTime - periodsUsed * tc_PeriodTime tc)
                     in (mainTime, (if periodsLeft > 0 then periodsLeft else 0),
                         (if periodTimeLeft > eps then periodTimeLeft else 0))))
               else (mainTime, t_Periods t, t_PeriodTime t))
         else (t_ThinkingTime t, t_Periods t, tc_PeriodTime tc))
      in \<lparr>cc_System = tc_System tc, cc_MainTime = mainTime, cc_PeriodsLeft = periodsLeft,
          cc_PeriodTimeLeft = periodTimeLeft, cc_MovesLeft = 0, cc_BlockTimeLeft = 0,
          cc_SuddenDeath = (periodsLeft \<le> 1),
          cc_TimedOut = (mainTime < eps \<and> periodsLeft < 0)\<rparr>)"

definition clock_Canadian :: "TimeControl \<Rightarrow> PlayerTime \<Rightarrow> bool \<Rightarrow> real \<Rightarrow> ComputedClock" where
  "clock_Canadian tc t isTurn elapsed =
     (let (mainTime, movesLeft, blockTimeLeft) =
        (if isTurn then
           (let (mainTime, overTime) = main_and_over t elapsed
            in if overTime > eps then
                 (let blockTimeLeft = t_BlockTime t - overTime
                  in (mainTime, t_MovesLeft t, (if blockTimeLeft > eps then blockTimeLeft else 0)))
               else (mainTime, t_MovesLeft t, t_BlockTime t))
         else (t_ThinkingTime t, t_MovesLeft t, t_BlockTime t))
      in \<lparr>cc_System = tc_System tc, cc_MainTime = mainTime, cc_PeriodsLeft = 0,
          cc_PeriodTimeLeft = 0, cc_MovesLeft = movesLeft, cc_BlockTimeLeft = blockTimeLeft,
          cc_SuddenDeath = (mainTime < eps \<and> (blockTimeLeft < 10 \<or> movesLeft < 2)),
          cc_TimedOut = (mainTime < eps \<and> blockTimeLeft < eps)\<rparr>)"

definition clock_Simple :: "TimeControl \<Rightarrow> bool \<Rightarrow> real \<Rightarrow> ComputedClock" where
  "clock_Simple tc isTurn elapsed =
     (let mainTime = (if isTurn then max 0 (tc_PerMove tc - elapsed) else tc_PerMove tc)
      in \<lparr>cc_System = tc_System tc, cc_MainTime = mainTime, cc_PeriodsLeft = 0,
          cc_PeriodTimeLeft = 0, cc_MovesLeft = 0, cc_BlockTimeLeft = 0,
          cc_SuddenDeath = (mainTime < 10), cc_TimedOut = (mainTime < eps)\<rparr>)"

text \<open>\<open>None\<close> is the \<open>nil\<close> result.\<close>

definition ComputeClock ::
  "(real option \<Rightarrow> int) \<Rightarrow> Timestamp \<Rightarrow> Clock \<Rightarrow> TimeControl \<Rightarrow> int \<Rightarrow> ComputedClock option" where
  "ComputeClock oor now c tc player =
     (case select_player c player of
        None \<Rightarrow> None
      | Some (t, isTurn) \<Rightarrow>
          (let elapsed = elapsed_seconds now c isTurn
           in if tc_System tc = ClockAbsolute \<or> tc_System tc = ClockFischer
              then Some (clock_AbsoluteFischer tc t isTurn elapsed)
              else if tc_System tc = ClockByoyomi
              then Some (clock_Byoyomi oor tc t isTurn elapsed)
              else if tc_System tc = ClockCanadian
              then Some (clock_Canadian tc t isTurn elapsed)
              else if tc_System tc = ClockSimple
              then Some (clock_Simple tc isTurn elapsed)
              else None))"

section \<open>Rendering a computed clock\<close>

definition prettyTime :: "real \<Rightarrow> string" where
  "prettyTime seconds0 =
     (let days = real_of_int \<lfloor>seconds0 / 86400\<rfloor>;
          seconds1 = seconds0 - days * 86400;
          hours = real_of_int \<lfloor>seconds1 / 3600\<rfloor>;
          seconds2 = seconds1 - hours * 3600;
          minutes = real_of_int \<lfloor>seconds2 / 60\<rfloor>;
          seconds3 = seconds2 - minutes * 60
      in if days > 0 then
           (if hours > 0 then fmt_f0 days @ ''d'' @ fmt_f0 hours @ ''h''
            else fmt_f0 (days * 24) @ ''h'')
         else if hours > 0 then
           fmt_f0 hours @ ''h'' @ (if minutes > 0 then fmt_f0 minutes @ ''m'' else [])
         else if minutes > 0 then fmt_f0 minutes @ '':'' @ fmt_02f0 seconds3
         else fmt_f0 seconds3 @ ''s'')"

definition ComputedClock_String :: "ComputedClock \<Rightarrow> string" where
  "ComputedClock_String c =
     (if cc_TimedOut c then ''Timeout''
      else if cc_System c = ClockAbsolute \<or> cc_System c = ClockFischer \<or> cc_System c = ClockSimple
      then prettyTime (cc_MainTime c) @ (if cc_SuddenDeath c then '' (SD)'' else [])
      else if cc_System c = ClockByoyomi then
        (if cc_SuddenDeath c then prettyTime (cc_PeriodTimeLeft c) @ '' (SD)''
         else if cc_MainTime c > 0
         then prettyTime (cc_MainTime c) @ '' +'' @ prettyTime (cc_PeriodTimeLeft c)
                @ '' ('' @ fmt_d (cc_PeriodsLeft c) @ '')''
         else prettyTime (cc_PeriodTimeLeft c) @ '' ('' @ fmt_d (cc_PeriodsLeft c) @ '')'')
      else if cc_System c = ClockCanadian then
        (if cc_SuddenDeath c
         then prettyTime (cc_BlockTimeLeft c) @ ''/'' @ fmt_d (cc_MovesLeft c) @ '' (SD)''
         else if cc_MainTime c > 0
         then prettyTime (cc_MainTime c) @ '' +'' @ prettyTime (cc_BlockTimeLeft c)
                @ ''/'' @ fmt_d (cc_MovesLeft c)
         else prettyTime (cc_BlockTimeLeft c) @ ''/'' @ fmt_d (cc_MovesLeft c))
      else ''??:??'')"

section \<open>Players, games and the status line\<close>

text \<open>
  \<open>Player.Rank\<close> is a \<open>float32\<close>. Of \<open>Game\<close> the record has the fields that the
  modelled methods read; the prefixes are \<open>p\<close>, \<open>g\<close> and \<open>s\<close> (for \<open>GameState\<close>).
\<close>

record Player =
  p_ID :: int
  p_Username :: string
  p_Professional :: bool
  p_Rank :: real
  p_AcceptedStones :: "string option"

definition zero_Player :: Player where
  "zero_Player =
     \<lparr>p_ID = 0, p_Username = [], p_Professional = False, p_Rank = 0, p_AcceptedStones = None\<rparr>"

definition Ranking :: "Player \<Rightarrow> string" where
  "Ranking p =
     (if p_Professional p then fmt_f0 (p_Rank p - 36) @ ''p''
      else if p_Rank p \<ge> 1037 then fmt_f0 (p_Rank p - 1036) @ ''p''
      else if p_Rank p \<ge> 30 then fmt_f0 (p_Rank p - 29) @ ''d''
      else if p_Rank p \<ge> 1 then fmt_f0 (30 - real_of_int \<lfloor>p_Rank p\<rfloor>) @ ''k''
      else ''?'')"

definition Player_String :: "Player \<Rightarrow> string" where
  "Player_String p = p_Username p @ ''['' @ Ranking p @ '']''"

record Players =
  Black :: Player
  White :: Player

record Move = OriginCoordinate +
  TimeDelta :: real

abbreviation PlayPhase :: string where "PlayPhase \<equiv> ''play''"
abbreviation StoneRemovalPhase :: string where "StoneRemovalPhase \<equiv> ''stone removal''"
abbreviation FinishedPhase :: string where "FinishedPhase \<equiv> ''finished''"

record Game =
  g_BlackPlayerID :: int
  g_Clock :: Clock
  g_GameID :: int
  g_GameName :: string
  g_Height :: int
  g_Moves :: "Move list"
  g_Outcome :: string
  g_Phase :: string
  g_PlayerPool :: "string \<rightharpoonup> Player"
  g_Players :: Players
  g_WhitePlayerID :: int
  g_Width :: int
  g_WinnerID :: int

record GameState =
  s_Phase :: string
  s_MoveNumber :: int
  s_LastMove :: OriginCoordinate
  s_PlayerToMove :: int
  s_Outcome :: string
  s_Board :: "int list list"
  s_Removal :: "int list list"

definition BlackPlayerTitle :: "Game \<Rightarrow> string" where
  "BlackPlayerTitle g = ''(B) '' @ Player_String (Black (g_Players g))"

definition WhitePlayerTitle :: "Game \<Rightarrow> string" where
  "WhitePlayerTitle g = ''(W) '' @ Player_String (White (g_Players g))"

text \<open>
  The rendering of \<open>%q\<close>, \<open>strconv.Quote\<close>, is a parameter of the functions that use
  it.
\<close>

definition Game_String :: "(string \<Rightarrow> string) \<Rightarrow> Game \<Rightarrow> string" where
  "Game_String quote g =
     (let whoseTurn = (if c_CurrentPlayerID (g_Clock g) = p_ID (Black (g_Players g))
                       then ''Black'' else ''White'')
      in fmt_d (g_GameID g) @ '' '' @ quote (g_GameName g) @ '' '' @ BlackPlayerTitle g
           @ '' vs '' @ WhitePlayerTitle g @ '', '' @ fmt_d (int (length (g_Moves g)))
           @ '' moves, '' @ whoseTurn @ '' to play'')"

definition BoardSize :: "Game \<Rightarrow> int" where
  "BoardSize g = g_Height g"

text \<open>A key that the map lacks gives the zero value of \<open>Player\<close>.\<close>

definition IsMyGame :: "Game \<Rightarrow> int \<Rightarrow> bool" where
  "IsMyGame g myUserID =
     (p_ID (case g_PlayerPool g (fmt_d myUserID) of None \<Rightarrow> zero_Player | Some p \<Rightarrow> p)
        = myUserID)"

definition Result :: "Game \<Rightarrow> string" where
  "Result g =
     (if g_Phase g \<noteq> FinishedPhase then []
      else (if g_WinnerID g = g_BlackPlayerID g then BlackPlayerTitle g else WhitePlayerTitle g)
             @ '' won by '' @ g_Outcome g)"

definition A1Coordinate_String :: "A1Coordinate \<Rightarrow> string" where
  "A1Coordinate_String c = fmt_c (Col c) @ fmt_d (Row c)"

text \<open>
  The words for the player who moved last and for the player to move, as the branch on
  \<open>IsMyGame\<close> in \<open>Status\<close> chooses them.
\<close>

definition turn_words :: "Game \<Rightarrow> GameState \<Rightarrow> int \<Rightarrow> string \<times> string" where
  "turn_words g st myUserID =
     (if IsMyGame g myUserID
      then ((if s_PlayerToMove st = myUserID then ''Opponent'' else ''You''),
            (if s_PlayerToMove st = myUserID then ''your'' else ''opponent'' @ [CHR 39] @ ''s''))
      else ((if s_PlayerToMove st = g_BlackPlayerID g then ''White'' else ''Black''),
            (if s_PlayerToMove st = g_BlackPlayerID g then ''Black'' @ [CHR 39] @ ''s''
             else ''White'' @ [CHR 39] @ ''s'')))"

text \<open>
  \<open>Status\<close> takes the state as a pointer that may be \<open>nil\<close>, here \<open>None\<close>. It drops the
  error of \<open>ToA1Coordinate\<close>; the \<open>nil\<close> pointer that comes with an error is printed by
  \<open>%s\<close> as \<open><nil>\<close>.
\<close>

definition Status :: "(string \<Rightarrow> string) \<Rightarrow> Game \<Rightarrow> GameState option \<Rightarrow> int \<Rightarrow> string" where
  "Status quote g state myUserID =
     (case state of
        None \<Rightarrow> Game_String quote g @ '' (unknown board state)''
      | Some st \<Rightarrow>
          if s_MoveNumber st = 0 then ''Game ready, '' @ BlackPlayerTitle g @ '' to start''
          else if s_Phase st = FinishedPhase then ''Game has finished, '' @ Result g
          else
            let (whoPlayed, turn) = turn_words g st myUserID
            in if IsPass (s_LastMove st)
               then fmt_d (s_MoveNumber st) @ '' moves. '' @ whoPlayed @ '' passed, '' @ turn
                      @ '' turn''
               else
                 let a1 = (case ToA1Coordinate (s_LastMove st) (BoardSize g) of
                             Inl err \<Rightarrow> ''<nil>''
                           | Inr a \<Rightarrow> A1Coordinate_String a)
                 in fmt_d (s_MoveNumber st) @ '' moves. '' @ whoPlayed @ '' played '' @ a1
                      @ '', '' @ turn @ '' turn'')"

section \<open>Sample inputs\<close>

text \<open>
  The zero values of the structs, and a clock of a game between the players 1 (black)
  and 2 (white) whose last move was made at instant 0.
\<close>

definition zero_PlayerTime :: PlayerTime where
  "zero_PlayerTime =
     \<lparr>t_PeriodTime = 0, t_PeriodTimeLeft = 0, t_Periods = 0, t_ThinkingTime = 0,
      t_MovesLeft = 0, t_BlockTime = 0, t_Value = 0\<rparr>"

definition zero_TimeControl :: TimeControl where
  "zero_TimeControl =
     \<lparr>tc_System = [], tc_Speed = [], tc_PauseOnWeekends = False, tc_TotalTime = 0,
      tc_MainTime = 0, tc_PeriodTime = 0, tc_Periods = 0, tc_PeriodsMax = 0,
      tc_PeriodsMin = 0, tc_StonesPerPeriod = 0, tc_InitialTime = 0, tc_TimeIncrement = 0,
      tc_MaxTime = 0, tc_PerMove = 0\<rparr>"

definition sample_clock :: "int \<Rightarrow> PlayerTime \<Rightarrow> PlayerTime \<Rightarrow> Clock" where
  "sample_clock current black white =
     \<lparr>c_BlackPlayerID = 1, c_BlackTime = black, c_CurrentPlayerID = current,
      c_Expiration = 0, c_GameID = 0, c_LastMove = 0, c_PausedSince = 0, c_Title = [],
      c_WhitePlayerID = 2, c_WhiteTime = white, c_StartMode = False, c_Now = 0\<rparr>"

definition seconds :: "int \<Rightarrow> Timestamp" where
  "seconds n = n * 1000000000"

text \<open>
  A game on a board of 9 lines between \<open>b\<close> (black, player 1) and \<open>w\<close> (white, player
  2), and a state of it after \<open>n\<close> moves with last move \<open>m\<close> and black to move.
\<close>

definition sample_game :: Game where
  "sample_game =
     \<lparr>g_BlackPlayerID = 1, g_Clock = sample_clock 1 zero_PlayerTime zero_PlayerTime,
      g_GameID = 7, g_GameName = ''g'', g_Height = 9, g_Moves = [], g_Outcome = [],
      g_Phase = PlayPhase, g_PlayerPool = Map.empty,
      g_Players = \<lparr>Black = zero_Player\<lparr>p_ID := 1, p_Username := ''b''\<rparr>,
                    White = zero_Player\<lparr>p_ID := 2, p_Username := ''w''\<rparr>\<rparr>,
      g_WhitePlayerID = 2, g_Width = 9, g_WinnerID = 0\<rparr>"

definition sample_state :: "int \<Rightarrow> OriginCoordinate \<Rightarrow> GameState" where
  "sample_state n m =
     \<lparr>s_Phase = PlayPhase, s_MoveNumber = n, s_LastMove = m, s_PlayerToMove = 1,
      s_Outcome = [], s_Board = [], s_Removal = []\<rparr>"

section \<open>Properties of the coordinate conversions\<close>

lemma wrap32_small: "- (2 ^ 31) \<le> i \<Longrightarrow> i < 2 ^ 31 \<Longrightarrow> wrap32 i = i"
  by (simp add: wrap32_def)

lemma wrap64_small: "- (2 ^ 63) \<le> i \<Longrightarrow> i < 2 ^ 63 \<Longrightarrow> wrap64 i = i"
  by (simp add: wrap64_def)

text \<open>
  On boards of at most 19 lines the two conversions are inverse to each other: the
  columns A-H and J-T are exactly the ones \<open>ToOriginCoordinate\<close> decodes.
\<close>

lemma roundtrip_upto_19:
  assumes "0 < boardSize" "boardSize \<le> 19"
    and "0 \<le> x" "x < boardSize" "0 \<le> y" "y < boardSize"
  shows "\<exists>a. ToA1Coordinate \<lparr>X = x, Y = y\<rparr> boardSize = Inr a
           \<and> ToOriginCoordinate a boardSize = Inr \<lparr>X = x, Y = y\<rparr>"
  using assms
  by (auto simp add: ToA1Coordinate_def ToOriginCoordinate_def Let_def wrap32_small wrap64_small)

text \<open>
  C2. For every board size up to 25 the conversion to A1 notation followed by the
  conversion back should return the coordinate it started from. On a board of 20 lines
  the coordinate (19, 0) is encoded as column U, row 20, and decoding that value fails:
  the decoder accepts the letters A-H and J-T only.
\<close>

theorem C2_roundtrip_breaks_above_19:
  "ToA1Coordinate \<lparr>X = 19, Y = 0\<rparr> 20 = Inr \<lparr>Col = rune CHR ''U'', Row = 20\<rparr>
   \<and> ToOriginCoordinate \<lparr>Col = rune CHR ''U'', Row = 20\<rparr> 20 = Inl InvalidColumn"
  by (simp add: ToA1Coordinate_def ToOriginCoordinate_def Let_def wrap32_def wrap64_def)

section \<open>Properties of the clock engine\<close>

lemma Seconds_eq: "Seconds d = real_of_int d / 1000000000"
  by (simp add: Seconds_def go_rem_def field_simps)

lemma time_Since_small:
  "- (2 ^ 63) \<le> now - t \<Longrightarrow> now - t < 2 ^ 63 \<Longrightarrow> time_Since now t = now - t"
  by (simp add: time_Since_def time_Sub_def)

lemma select_player_sample [simp]:
  "select_player (sample_clock cur b w) PlayerBlack = Some (b, cur = 1)"
  "select_player (sample_clock cur b w) PlayerWhite = Some (w, cur = 2)"
  by (simp_all add: select_player_def sample_clock_def)

lemma sample_clock_sel [simp]:
  "c_LastMove (sample_clock cur b w) = 0"
  "c_StartMode (sample_clock cur b w) = False"
  by (simp_all add: sample_clock_def)

lemma elapsed_sample [simp]:
  "elapsed_seconds (seconds n) (sample_clock cur b w) False = 0"
  "- 9000000000 \<le> n \<Longrightarrow> n \<le> 9000000000 \<Longrightarrow>
     elapsed_seconds (seconds n) (sample_clock cur b w) True = real_of_int n"
  by (simp_all add: elapsed_seconds_def sample_clock_def Seconds_eq time_Since_small seconds_def)





text \<open>
  C7. When the queried player does not hold the turn, or the game is still in start
  mode, the result does not depend on the instant of the query. \<open>ComputeClock\<close> reads
  nothing but the snapshot, the configuration, the player and the wall clock, which is
  the argument \<open>now\<close> here, so that it is a function of these (and of the platform's
  choice \<open>oor\<close>).
\<close>

theorem C7_paused_clock_ignores_now:
  assumes "select_player c player = Some (t, isTurn)"
    and "\<not> isTurn \<or> c_StartMode c"
  shows "ComputeClock oor now1 c tc player = ComputeClock oor now2 c tc player"
  using assms
  by (auto simp add: ComputeClock_def elapsed_seconds_def Let_def split: option.splits)

theorem C7_paused_clock_ignores_now_witness:
  "ComputeClock (\<lambda>_. 0) (seconds 10)
      (sample_clock 1 zero_PlayerTime (zero_PlayerTime\<lparr>t_ThinkingTime := 40\<rparr>))
      (zero_TimeControl\<lparr>tc_System := ClockFischer\<rparr>) PlayerWhite
   = ComputeClock (\<lambda>_. 0) (seconds 35)
      (sample_clock 1 zero_PlayerTime (zero_PlayerTime\<lparr>t_ThinkingTime := 40\<rparr>))
      (zero_TimeControl\<lparr>tc_System := ClockFischer\<rparr>) PlayerWhite"
  using C7_paused_clock_ignores_now [of
      "sample_clock 1 zero_PlayerTime (zero_PlayerTime\<lparr>t_ThinkingTime := 40\<rparr>)"
      PlayerWhite "zero_PlayerTime\<lparr>t_ThinkingTime := 40\<rparr>" False "\<lambda>_. 0"
      "seconds 10" "zero_TimeControl\<lparr>tc_System := ClockFischer\<rparr>" "seconds 35"]
  by simp






text \<open>
  C3, as stated: off turn the byoyomi branch reports the snapshot's period time left.
  The code reports the period length of the time control instead: a snapshot with 12
  seconds left of a period of 20, under a time control with periods of 30 seconds, is
  reported with 30 seconds.
\<close>

theorem C3_counterexample:
  "ComputeClock (\<lambda>_. 0) (seconds 10)
      (sample_clock 1 zero_PlayerTime
         (zero_PlayerTime\<lparr>t_PeriodTime := 20, t_PeriodTimeLeft := 12, t_Periods := 3,
            t_ThinkingTime := 100\<rparr>))
      (zero_TimeControl\<lparr>tc_System := ClockByoyomi, tc_PeriodTime := 30\<rparr>) PlayerWhite
    = Some \<lparr>cc_System = ClockByoyomi, cc_MainTime = 100, cc_PeriodsLeft = 3,
        cc_PeriodTimeLeft = 30, cc_MovesLeft = 0, cc_BlockTimeLeft = 0,
        cc_SuddenDeath = False, cc_TimedOut = False\<rparr>"
  by (simp add: ComputeClock_def clock_Byoyomi_def Let_def zero_PlayerTime_def
      zero_TimeControl_def)

text \<open>
  C3, amended. For a byoyomi query where the queried player is not on turn, the result
  carries the snapshot's period count, the period length of the time control as the
  period time left, and the snapshot's thinking time as the main time, with no
  depletion.
\<close>

theorem C3_byoyomi_off_turn:
  assumes "tc_System tc = ClockByoyomi"
    and "select_player c player = Some (t, False)"
  shows "\<exists>cc. ComputeClock oor now c tc player = Some cc
     \<and> cc_PeriodsLeft cc = t_Periods t
     \<and> cc_PeriodTimeLeft cc = tc_PeriodTime tc
     \<and> cc_MainTime cc = t_ThinkingTime t"
  using assms by (auto simp add: ComputeClock_def clock_Byoyomi_def Let_def)

theorem C3_byoyomi_off_turn_witness:
  "\<exists>cc. ComputeClock (\<lambda>_. 0) (seconds 10)
          (sample_clock 1 zero_PlayerTime
             (zero_PlayerTime\<lparr>t_PeriodTimeLeft := 12, t_Periods := 3, t_ThinkingTime := 100\<rparr>))
          (zero_TimeControl\<lparr>tc_System := ClockByoyomi, tc_PeriodTime := 30\<rparr>) PlayerWhite = Some cc
     \<and> cc_PeriodsLeft cc = 3 \<and> cc_PeriodTimeLeft cc = 30 \<and> cc_MainTime cc = 100"
  using C3_byoyomi_off_turn [of
      "zero_TimeControl\<lparr>tc_System := ClockByoyomi, tc_PeriodTime := 30\<rparr>"
      "sample_clock 1 zero_PlayerTime
         (zero_PlayerTime\<lparr>t_PeriodTimeLeft := 12, t_Periods := 3, t_ThinkingTime := 100\<rparr>)"
      PlayerWhite
      "zero_PlayerTime\<lparr>t_PeriodTimeLeft := 12, t_Periods := 3, t_ThinkingTime := 100\<rparr>"
      "\<lambda>_. 0" "seconds 10"]
  by (auto simp add: zero_TimeControl_def zero_PlayerTime_def)




section \<open>Properties of the renderers\<close>

lemma digit_simps:
  "digit 0 = CHR ''0''" "digit 1 = CHR ''1''" "digit 2 = CHR ''2''" "digit 3 = CHR ''3''"
  "digit 4 = CHR ''4''" "digit 5 = CHR ''5''" "digit 6 = CHR ''6''" "digit 7 = CHR ''7''"
  "digit 8 = CHR ''8''" "digit 9 = CHR ''9''" "digit (Suc 0) = CHR ''1''"
  by code_simp+

lemma decimal_digit [simp]: "n < 10 \<Longrightarrow> decimal n = [digit n]"
  by (simp add: decimal.simps)

lemma ends_paren_not_Timeout: "ys @ '')'' \<noteq> ''Timeout''"
proof
  assume "ys @ '')'' = ''Timeout''"
  then have "last (ys @ '')'') = last ''Timeout''" by (rule arg_cong)
  then show False by simp
qed

text \<open>Every string that the byoyomi branch of the renderer builds ends in a bracket.\<close>

lemma byoyomi_string_shape:
  assumes "cc_System cc = ClockByoyomi" "\<not> cc_TimedOut cc"
  shows "\<exists>ys. ComputedClock_String cc = ys @ '')''"
proof -
  have "ComputedClock_String cc = prettyTime (cc_PeriodTimeLeft cc) @ '' (SD)''
      \<or> ComputedClock_String cc =
          (prettyTime (cc_MainTime cc) @ '' +'' @ prettyTime (cc_PeriodTimeLeft cc)
             @ '' ('' @ fmt_d (cc_PeriodsLeft cc)) @ '')''
      \<or> ComputedClock_String cc =
          (prettyTime (cc_PeriodTimeLeft cc) @ '' ('' @ fmt_d (cc_PeriodsLeft cc)) @ '')''"
    using assms by (simp add: ComputedClock_String_def)
  then show ?thesis
    by (metis append.assoc append_Cons append_Nil)
qed

text \<open>
  C10. For a byoyomi query whose snapshot has a period count that is not negative, the
  periods left are not negative either, on turn (clamped at 0, or the snapshot's count
  where no overtime has run) and off turn (the snapshot's count). So \<open>TimedOut\<close> is
  false, and the renderer does not take its \<open>Timeout\<close> branch: what it returns is not
  the string \<open>Timeout\<close>.
\<close>

theorem C10_byoyomi_never_times_out:
  assumes "tc_System tc = ClockByoyomi"
    and "select_player c player = Some (t, isTurn)"
    and "0 \<le> t_Periods t"
  shows "\<exists>cc. ComputeClock oor now c tc player = Some cc
     \<and> \<not> cc_TimedOut cc \<and> 0 \<le> cc_PeriodsLeft cc
     \<and> ComputedClock_String cc \<noteq> ''Timeout''"
proof -
  define cc where "cc = clock_Byoyomi oor tc t isTurn (elapsed_seconds now c isTurn)"
  have call: "ComputeClock oor now c tc player = Some cc"
    using assms(1,2) by (simp add: ComputeClock_def cc_def)
  have sys: "cc_System cc = ClockByoyomi"
    using assms(1) by (simp add: cc_def clock_Byoyomi_def Let_def split: prod.splits)
  have left: "0 \<le> cc_PeriodsLeft cc"
    using assms(3) by (auto simp add: cc_def clock_Byoyomi_def Let_def split: prod.splits)
  have flag: "cc_TimedOut cc = (cc_MainTime cc < eps \<and> cc_PeriodsLeft cc < 0)"
    by (simp add: cc_def clock_Byoyomi_def Let_def split: prod.splits)
  with left have nt: "\<not> cc_TimedOut cc" by simp
  from byoyomi_string_shape [OF sys nt]
  obtain ys where "ComputedClock_String cc = ys @ '')''" ..
  then have "ComputedClock_String cc \<noteq> ''Timeout''"
    by (simp add: ends_paren_not_Timeout)
  with call nt left show ?thesis by blast
qed

theorem C10_byoyomi_never_times_out_witness:
  "\<exists>cc. ComputeClock (\<lambda>_. 0) (seconds 45)
          (sample_clock 1 (zero_PlayerTime\<lparr>t_Periods := 1\<rparr>) zero_PlayerTime)
          (zero_TimeControl\<lparr>tc_System := ClockByoyomi, tc_PeriodTime := 30\<rparr>) PlayerBlack = Some cc
     \<and> \<not> cc_TimedOut cc \<and> 0 \<le> cc_PeriodsLeft cc
     \<and> ComputedClock_String cc \<noteq> ''Timeout''"
  using C10_byoyomi_never_times_out [of
      "zero_TimeControl\<lparr>tc_System := ClockByoyomi, tc_PeriodTime := 30\<rparr>"
      "sample_clock 1 (zero_PlayerTime\<lparr>t_Periods := 1\<rparr>) zero_PlayerTime"
      PlayerBlack "zero_PlayerTime\<lparr>t_Periods := 1\<rparr>" True "\<lambda>_. 0" "seconds 45"]
  by (auto simp add: zero_TimeControl_def zero_PlayerTime_def)

text \<open>
  C9. \<open>Ranking\<close> gives \<open>3p\<close> for a professional of rank 39, and for the other players
  \<open>1p\<close> at rank 1037.1, \<open>1d\<close> at rank 30.0001, \<open>1k\<close> at rank 29.9999 and \<open>?\<close> at rank
  0.9999. Each line is stated for the decimal number and for the \<open>float32\<close> nearest
  to it, which is what the field holds.
\<close>

theorem C9_ranking:
  "Ranking \<lparr>p_ID = i, p_Username = u, p_Professional = True, p_Rank = 39,
      p_AcceptedStones = a\<rparr> = ''3p''
   \<and> Ranking \<lparr>p_ID = i, p_Username = u, p_Professional = False, p_Rank = 1037.1,
      p_AcceptedStones = a\<rparr> = ''1p''
   \<and> Ranking \<lparr>p_ID = i, p_Username = u, p_Professional = False, p_Rank = 8495923 / 8192,
      p_AcceptedStones = a\<rparr> = ''1p''
   \<and> Ranking \<lparr>p_ID = i, p_Username = u, p_Professional = False, p_Rank = 30.0001,
      p_AcceptedStones = a\<rparr> = ''1d''
   \<and> Ranking \<lparr>p_ID = i, p_Username = u, p_Professional = False, p_Rank = 3932173 / 131072,
      p_AcceptedStones = a\<rparr> = ''1d''
   \<and> Ranking \<lparr>p_ID = i, p_Username = u, p_Professional = False, p_Rank = 29.9999,
      p_AcceptedStones = a\<rparr> = ''1k''
   \<and> Ranking \<lparr>p_ID = i, p_Username = u, p_Professional = False, p_Rank = 3932147 / 131072,
      p_AcceptedStones = a\<rparr> = ''1k''
   \<and> Ranking \<lparr>p_ID = i, p_Username = u, p_Professional = False, p_Rank = 0.9999,
      p_AcceptedStones = a\<rparr> = ''?''
   \<and> Ranking \<lparr>p_ID = i, p_Username = u, p_Professional = False, p_Rank = 8387769 / 8388608,
      p_AcceptedStones = a\<rparr> = ''?''"
  by (simp add: Ranking_def fmt_f0_def round_half_even_def frac_def digit_simps)

section \<open>Properties of the status line\<close>

lemma sublist_mid: "sublist ys (xs @ ys @ zs)"
  by (auto simp add: sublist_def)

text \<open>
  C8, as stated: for every state whose last move is the pass sentinel \<open>Status\<close> renders
  the word \<open>passed\<close>. The checks of the move number and of the phase come first: for a
  state with no move played and last move (-1, -1) the status is the line of a game
  that is ready to start.
\<close>

theorem C8_counterexample:
  "IsPass (s_LastMove (sample_state 0 \<lparr>X = - 1, Y = - 1\<rparr>))
   \<and> Status (\<lambda>s. s) sample_game (Some (sample_state 0 \<lparr>X = - 1, Y = - 1\<rparr>)) 5
       = ''Game ready, (B) b[?] to start''
   \<and> \<not> sublist ''passed''
         (Status (\<lambda>s. s) sample_game (Some (sample_state 0 \<lparr>X = - 1, Y = - 1\<rparr>)) 5)"
  by (simp add: Status_def sample_game_def sample_state_def IsPass_def BlackPlayerTitle_def
      Player_String_def Ranking_def zero_Player_def sublist_Cons_right)

text \<open>
  C8, amended. Given no state, \<open>Status\<close> returns the game's own line followed by
  \<open>(unknown board state)\<close>. For every state with at least one move played, a phase
  other than finished and the pass sentinel as last move, it returns the move number,
  who played, the word \<open>passed\<close> and whose turn it is; no coordinate is converted, the
  result being the same on a board of any size. \<open>Status\<close> assigns to none of its
  inputs: the model is a function of their values.
\<close>

theorem C8_status:
  "Status quote g None myUserID = Game_String quote g @ '' (unknown board state)''
   \<and> sublist ''(unknown board state)'' (Status quote g None myUserID)
   \<and> (s_MoveNumber st \<noteq> 0 \<and> s_Phase st \<noteq> FinishedPhase \<and> IsPass (s_LastMove st) \<longrightarrow>
        Status quote g (Some st) myUserID
          = fmt_d (s_MoveNumber st) @ '' moves. '' @ fst (turn_words g st myUserID)
              @ '' passed, '' @ snd (turn_words g st myUserID) @ '' turn''
        \<and> sublist ''passed'' (Status quote g (Some st) myUserID)
        \<and> Status quote (g\<lparr>g_Height := h\<rparr>) (Some st) myUserID
            = Status quote g (Some st) myUserID)"
proof -
  have a: "Status quote g None myUserID = Game_String quote g @ '' (unknown board state)''"
    by (simp add: Status_def)
  have b: "sublist ''(unknown board state)'' (Status quote g None myUserID)"
    unfolding a sublist_def
    by (rule exI [of _ "Game_String quote g @ '' ''"], rule exI [of _ "[]"]) simp
  have c: "Status quote g' (Some st) myUserID
            = fmt_d (s_MoveNumber st) @ '' moves. '' @ fst (turn_words g' st myUserID)
                @ '' passed, '' @ snd (turn_words g' st myUserID) @ '' turn''"
    if "s_MoveNumber st \<noteq> 0" "s_Phase st \<noteq> FinishedPhase" "IsPass (s_LastMove st)" for g'
    using that by (simp add: Status_def Let_def split: prod.splits)
  have e: "turn_words (g\<lparr>g_Height := h\<rparr>) st myUserID = turn_words g st myUserID"
    by (simp add: turn_words_def IsMyGame_def)
  have d: "sublist ''passed'' (Status quote g (Some st) myUserID)"
    if "s_MoveNumber st \<noteq> 0" "s_Phase st \<noteq> FinishedPhase" "IsPass (s_LastMove st)"
  proof -
    have "Status quote g (Some st) myUserID
            = (fmt_d (s_MoveNumber st) @ '' moves. '' @ fst (turn_words g st myUserID) @ '' '')
               @ ''passed'' @ ('', '' @ snd (turn_words g st myUserID) @ '' turn'')"
      by (simp add: c [OF that])
    then show ?thesis
      by (simp only: sublist_mid)
  qed
  from a b c d e show ?thesis by simp
qed

theorem C8_status_witness:
  "Status (\<lambda>s. s) sample_game (Some (sample_state 3 \<lparr>X = - 1, Y = - 1\<rparr>)) 5
     = ''3 moves. White passed, Black'' @ [CHR 39] @ ''s turn''
   \<and> sublist ''passed''
       (Status (\<lambda>s. s) sample_game (Some (sample_state 3 \<lparr>X = - 1, Y = - 1\<rparr>)) 5)
   \<and> Status (\<lambda>s. s) (sample_game\<lparr>g_Height := 19\<rparr>)
         (Some (sample_state 3 \<lparr>X = - 1, Y = - 1\<rparr>)) 5
       = Status (\<lambda>s. s) sample_game (Some (sample_state 3 \<lparr>X = - 1, Y = - 1\<rparr>)) 5"
  using C8_status [of "\<lambda>s. s" sample_game 5 "sample_state 3 \<lparr>X = - 1, Y = - 1\<rparr>" 19]
  by (simp add: turn_words_def IsMyGame_def sample_game_def sample_state_def IsPass_def
      zero_Player_def fmt_d_def digit_simps sublist_Cons_right)

end
